theory Spec2Isabelle
  imports Main
begin

section \<open>GLB Compressor: the window, its event handlers and the compression run\<close>

text \<open>
  The program is one Python module, \<^verbatim>\<open>glb_compressor.py\<close>: a drop area
  (\<^verbatim>\<open>DragAndDropArea\<close>) and a main window (\<^verbatim>\<open>GLBCompressorApp\<close>) whose
  handlers mutate the window's attributes and widgets. Mutation is modelled by explicit
  state passing over the record \<open>app\<close>; a raised exception is a value of type \<open>exn\<close>.
  The mesh library (\<^verbatim>\<open>trimesh\<close>) is not part of the module: its two entry points are
  parameters of the model.
\<close>

subsection \<open>Values\<close>

type_synonym path = string
type_synonym bytes = string
type_synonym filesystem = "path \<rightharpoonup> bytes"

text \<open>
  Exceptions. Both constructors stand for instances of Python's \<^verbatim>\<open>Exception\<close>:
  the attribute lookup that fails and whatever the library raises. The string is what
  \<^verbatim>\<open>str(e)\<close> gives.
\<close>

datatype exn = AttributeError string | LibraryError string

fun str :: "exn \<Rightarrow> string" where
  "str (AttributeError m) = m"
| "str (LibraryError m) = m"

definition quoted :: "string \<Rightarrow> string" where
  "quoted s = CHR 0x27 # s @ [CHR 0x27]"

definition no_attribute :: "string \<Rightarrow> string \<Rightarrow> exn" where
  "no_attribute cls attr =
     AttributeError (quoted cls @ '' object has no attribute '' @ quoted attr)"

text \<open>
  The library: \<^verbatim>\<open>trimesh.load(path, force="scene")\<close> reads the file system and
  returns a scene or raises; \<^verbatim>\<open>scene.export(path)\<close> writes the file system and may
  raise, possibly after having written.
\<close>

record 'scene trimesh =
  trimesh_load :: "filesystem \<Rightarrow> path \<Rightarrow> exn + 'scene"
  scene_export :: "'scene \<Rightarrow> path \<Rightarrow> filesystem \<Rightarrow> exn option \<times> filesystem"

subsection \<open>Strings: \<^verbatim>\<open>endswith\<close>, \<^verbatim>\<open>os.path.basename\<close>, \<^verbatim>\<open>str(int)\<close>\<close>

definition endswith :: "string \<Rightarrow> string \<Rightarrow> bool" where
  "endswith s suf = (length suf \<le> length s \<and> drop (length s - length suf) s = suf)"

text \<open>POSIX \<^verbatim>\<open>os.path.basename\<close>: what follows the last slash.\<close>

definition basename :: "path \<Rightarrow> string" where
  "basename p = rev (takeWhile (\<lambda>c. c \<noteq> CHR ''/'') (rev p))"

definition digit_char :: "nat \<Rightarrow> char" where
  "digit_char d = char_of (48 + d)"

fun str_nat :: "nat \<Rightarrow> string" where
  "str_nat n = (if n < 10 then [digit_char n] else str_nat (n div 10) @ [digit_char (n mod 10)])"

declare str_nat.simps [simp del]

definition str_int :: "int \<Rightarrow> string" where
  "str_int i = (if i < 0 then CHR ''-'' # str_nat (nat (- i)) else str_nat (nat i))"

subsection \<open>The slider control\<close>

record qslider =
  minimum :: int
  maximum :: int
  slider_value :: int

text \<open>A freshly constructed slider has the range 0..99 and the value 0.\<close>

definition QSlider :: qslider where
  "QSlider = \<lparr>minimum = 0, maximum = 99, slider_value = 0\<rparr>"

definition bound :: "int \<Rightarrow> int \<Rightarrow> int \<Rightarrow> int" where
  "bound lo hi v = max lo (min hi v)"

text \<open>
  Modelled from the spec: the slider control \<^verbatim>\<open>QSlider\<close> belongs to the GUI toolkit,
  whose code is not in the module. The specification says of the level that values outside
  the slider bounds "are clamped, not rejected"; \<open>setValue\<close> and \<open>setRange\<close> are written
  accordingly, \<open>setRange\<close> keeping the current value inside the new range.
\<close>

definition setValue :: "int \<Rightarrow> qslider \<Rightarrow> qslider" where
  "setValue v sl = sl\<lparr>slider_value := bound (minimum sl) (maximum sl) v\<rparr>"

definition setRange :: "int \<Rightarrow> int \<Rightarrow> qslider \<Rightarrow> qslider" where
  "setRange lo hi sl =
     \<lparr>minimum = lo, maximum = max lo hi, slider_value = bound lo (max lo hi) (slider_value sl)\<rparr>"

subsection \<open>The window\<close>

text \<open>
  What \<^verbatim>\<open>parentWidget()\<close> of the drop area can be: the main window, which has the
  method \<^verbatim>\<open>set_status_message\<close>, or the plain central widget, which has not.
\<close>

datatype parent_widget = MainWindow | CentralWidget

text \<open>
  The journal lists, in call order, the calls of \<^verbatim>\<open>update_progress\<close>,
  \<^verbatim>\<open>set_status_message\<close>, \<^verbatim>\<open>load_glb_file\<close>, of the two library entry
  points and of the button's \<^verbatim>\<open>setEnabled\<close>.
\<close>

datatype call =
    LoadGlbFile path
  | UpdateProgress int string
  | SetStatusMessage string
  | TrimeshLoad path
  | SceneExport path
  | SetEnabled bool

text \<open>
  \<open>filepath\<close> is \<open>None\<close> as long as the attribute \<^verbatim>\<open>self.filepath\<close> has never
  been assigned. \<open>log_area\<close> holds the appended lines, \<open>files\<close> is the file system the
  process sees.
\<close>

record app =
  filepath :: "path option"
  file_label :: string
  log_area :: "string list"
  slider_label :: string
  compression_slider :: qslider
  progress_bar :: int
  compress_button :: bool
  drop_parent :: "parent_widget option"
  files :: filesystem
  journal :: "call list"

text \<open>
  \<^verbatim>\<open>__init__\<close>. The attribute \<^verbatim>\<open>filepath\<close> is not assigned. The drop area is
  constructed with the window as parent and then added, by \<^verbatim>\<open>layout.addWidget\<close>, to
  the layout created on \<^verbatim>\<open>main_widget\<close>; a layout makes the widgets it manages
  children of its own widget, so from then on \<^verbatim>\<open>parentWidget()\<close> of the drop area is
  the central widget.
\<close>

definition init_app :: "filesystem \<Rightarrow> app" where
  "init_app fs =
     \<lparr>filepath = None,
      file_label = ''No file loaded.'',
      log_area = [],
      slider_label = ''Compression Level: 50%'',
      compression_slider = setValue 50 (setRange 10 100 QSlider),
      progress_bar = 0,
      compress_button = True,
      drop_parent = Some CentralWidget,
      files = fs,
      journal = []\<rparr>"

definition set_status_message :: "string \<Rightarrow> app \<Rightarrow> app" where
  "set_status_message message w =
     w\<lparr>log_area := log_area w @ [message],
       journal := journal w @ [SetStatusMessage message]\<rparr>"

definition update_progress :: "int \<Rightarrow> string \<Rightarrow> app \<Rightarrow> app" where
  "update_progress v message w =
     w\<lparr>progress_bar := v,
       log_area := log_area w @ [message],
       journal := journal w @ [UpdateProgress v message]\<rparr>"

definition show_about_dialog :: "app \<Rightarrow> app" where
  "show_about_dialog w =
     w\<lparr>log_area := log_area w @
        [''GLB Compressor: Drag and drop GLB files, adjust compression, and save compressed files.'']\<rparr>"

definition load_glb_file :: "path \<Rightarrow> app \<Rightarrow> app" where
  "load_glb_file p w =
     set_status_message (''Loaded file: '' @ basename p)
       (w\<lparr>filepath := Some p,
          file_label := ''Loaded file: '' @ basename p,
          journal := journal w @ [LoadGlbFile p]\<rparr>)"

definition open_file_dialog :: "path \<Rightarrow> app \<Rightarrow> app" where
  "open_file_dialog file_path w = (if file_path \<noteq> [] then load_glb_file file_path w else w)"

definition update_slider_label :: "app \<Rightarrow> app" where
  "update_slider_label w =
     w\<lparr>slider_label :=
        ''Compression Level: '' @ str_int (slider_value (compression_slider w)) @ ''%''\<rparr>"

text \<open>
  The user moves the slider (or a value is set): the control stores the value it accepts
  and, when that differs from the old one, the connected \<^verbatim>\<open>update_slider_label\<close> runs.
\<close>

definition slider_moved :: "int \<Rightarrow> app \<Rightarrow> app" where
  "slider_moved v w =
     (let sl = setValue v (compression_slider w) in
      if slider_value sl = slider_value (compression_slider w) then w
      else update_slider_label (w\<lparr>compression_slider := sl\<rparr>))"

subsection \<open>The drop area\<close>

datatype url = LocalFile path | OtherUrl string

fun toLocalFile :: "url \<Rightarrow> path" where
  "toLocalFile (LocalFile p) = p"
| "toLocalFile (OtherUrl u) = []"

text \<open>
  \<^verbatim>\<open>dropEvent\<close>, with the callback and the result of \<^verbatim>\<open>parentWidget()\<close> as
  parameters. \<open>Inl\<close> is the exception that leaves the handler.
\<close>

definition dropEvent ::
  "(path \<Rightarrow> app \<Rightarrow> exn + app) \<Rightarrow> parent_widget option \<Rightarrow> url list \<Rightarrow> app \<Rightarrow> exn + app" where
  "dropEvent callback parent urls w =
     (case urls of
        [] \<Rightarrow> Inr w
      | u # rest \<Rightarrow>
          (let file_path = toLocalFile u in
           if endswith file_path ''.glb'' then callback file_path w
           else (case parent of
                   None \<Rightarrow> Inr w
                 | Some MainWindow \<Rightarrow>
                     Inr (set_status_message
                            ''Invalid file type. Only .glb files are supported.'' w)
                 | Some CentralWidget \<Rightarrow>
                     Inl (no_attribute ''PySide6.QtWidgets.QWidget'' ''set_status_message''))))"

subsection \<open>Compressing\<close>

text \<open>
  \<^verbatim>\<open>compress_file\<close>; the argument is what the save dialog returns (empty when
  cancelled). The second component of the result is the argument of the thread that is
  started, if one is.
\<close>

definition compress_file :: "path \<Rightarrow> app \<Rightarrow> exn + (app \<times> path option)" where
  "compress_file output_file w =
     (case filepath w of
        None \<Rightarrow> Inl (no_attribute ''GLBCompressorApp'' ''filepath'')
      | Some p \<Rightarrow>
          if p = [] then Inr (set_status_message ''No GLB file loaded to compress.'' w, None)
          else if output_file \<noteq> [] then Inr (w, Some output_file)
          else Inr (w, None))"

text \<open>
  The body of the \<^verbatim>\<open>try\<close> block of \<^verbatim>\<open>perform_compression\<close>: the pending
  exception, if any, and the state at the point where the block is left.
\<close>

definition try_block :: "'scene trimesh \<Rightarrow> path \<Rightarrow> app \<Rightarrow> exn option \<times> app" where
  "try_block lib output_path w =
     (let w1 = update_progress 10 ''Loading GLB file...'' w in
      case filepath w1 of
        None \<Rightarrow> (Some (no_attribute ''GLBCompressorApp'' ''filepath''), w1)
      | Some p \<Rightarrow>
          (let w2 = w1\<lparr>journal := journal w1 @ [TrimeshLoad p]\<rparr> in
           case trimesh_load lib (files w2) p of
             Inl e \<Rightarrow> (Some e, w2)
           | Inr scene \<Rightarrow>
               (let w3 = update_progress 90 ''Saving compressed file...'' w2;
                    w4 = w3\<lparr>journal := journal w3 @ [SceneExport output_path]\<rparr>;
                    (raised, fs) = scene_export lib scene output_path (files w4);
                    w5 = w4\<lparr>files := fs\<rparr>
                in case raised of
                     Some e \<Rightarrow> (Some e, w5)
                   | None \<Rightarrow>
                       (None,
                        set_status_message (''Compressed file saved: '' @ output_path)
                          (update_progress 100 ''Compression complete.'' w5)))))"

text \<open>\<^verbatim>\<open>except Exception as e\<close>: every value of \<open>exn\<close> is an \<^verbatim>\<open>Exception\<close>.\<close>

definition except_block :: "exn option \<times> app \<Rightarrow> exn option \<times> app" where
  "except_block r =
     (case r of
        (None, w) \<Rightarrow> (None, w)
      | (Some e, w) \<Rightarrow> (None, set_status_message (''Compression failed: '' @ str e) w))"

text \<open>\<^verbatim>\<open>finally\<close>: runs in every case and keeps the pending exception.\<close>

definition finally_block :: "exn option \<times> app \<Rightarrow> exn option \<times> app" where
  "finally_block r =
     (case r of
        (pending, w) \<Rightarrow>
          (pending, w\<lparr>compress_button := True, journal := journal w @ [SetEnabled True]\<rparr>))"

text \<open>
  \<^verbatim>\<open>perform_compression\<close>: the exception that reaches the caller, if any, and the
  final state.
\<close>

definition perform_compression :: "'scene trimesh \<Rightarrow> path \<Rightarrow> app \<Rightarrow> exn option \<times> app" where
  "perform_compression lib output_path w =
     finally_block (except_block (try_block lib output_path w))"

subsection \<open>Traces of handler calls\<close>

text \<open>
  What can happen to the window, one handler call at a time. The thread that
  \<^verbatim>\<open>compress_file\<close> starts runs \<^verbatim>\<open>perform_compression\<close> at some later time:
  in a trace that is the event \<open>PerformCompressionEv\<close>. An exception that leaves a handler
  is printed by the toolkit and the window lives on, in the state the handler left.
\<close>

datatype event =
    OpenFileDialogEv path
  | LoadGlbFileEv path
  | DropEv "url list"
  | SliderMovedEv int
  | CompressFileEv path
  | PerformCompressionEv path
  | ShowAboutDialogEv

fun fire :: "'scene trimesh \<Rightarrow> event \<Rightarrow> app \<Rightarrow> app" where
  "fire lib (OpenFileDialogEv p) w = open_file_dialog p w"
| "fire lib (LoadGlbFileEv p) w = load_glb_file p w"
| "fire lib (DropEv urls) w =
     (case dropEvent (\<lambda>p v. Inr (load_glb_file p v)) (drop_parent w) urls w of
        Inl e \<Rightarrow> w
      | Inr w' \<Rightarrow> w')"
| "fire lib (SliderMovedEv v) w = slider_moved v w"
| "fire lib (CompressFileEv output_file) w =
     (case compress_file output_file w of
        Inl e \<Rightarrow> w
      | Inr (w', started) \<Rightarrow> w')"
| "fire lib (PerformCompressionEv output_path) w = snd (perform_compression lib output_path w)"
| "fire lib ShowAboutDialogEv w = show_about_dialog w"

fun run :: "'scene trimesh \<Rightarrow> event list \<Rightarrow> app \<Rightarrow> app" where
  "run lib [] w = w"
| "run lib (e # es) w = run lib es (fire lib e w)"

subsection \<open>Observations of a compression run\<close>

text \<open>The calls a run adds to the journal, and the progress values among them.\<close>

definition emitted :: "'scene trimesh \<Rightarrow> path \<Rightarrow> app \<Rightarrow> call list" where
  "emitted lib output_path w =
     drop (length (journal w)) (journal (snd (perform_compression lib output_path w)))"


text \<open>The arguments of the \<^verbatim>\<open>load_glb_file\<close> calls in a journal, oldest first.\<close>

fun loads :: "call list \<Rightarrow> path list" where
  "loads [] = []"
| "loads (LoadGlbFile p # cs) = p # loads cs"
| "loads (c # cs) = loads cs"

text \<open>What is at the output path after a run, and its size in bytes.\<close>

definition compressed_output :: "'scene trimesh \<Rightarrow> path \<Rightarrow> app \<Rightarrow> bytes option" where
  "compressed_output lib output_path w =
     files (snd (perform_compression lib output_path w)) output_path"

definition output_size :: "'scene trimesh \<Rightarrow> path \<Rightarrow> app \<Rightarrow> nat" where
  "output_size lib output_path w =
     (case compressed_output lib output_path w of None \<Rightarrow> 0 | Some b \<Rightarrow> length b)"

subsection \<open>A stand-in library for concrete runs\<close>

text \<open>
  For evaluating runs on concrete inputs: a loader that accepts exactly the files that
  start with the four bytes \<^verbatim>\<open>glTF\<close> and keeps their bytes as the scene, and an exporter
  that writes the scene's bytes when the output path ends with \<^verbatim>\<open>.glb\<close> and raises
  otherwise.
\<close>

definition copy_load :: "filesystem \<Rightarrow> path \<Rightarrow> exn + bytes" where
  "copy_load fs p =
     (case fs p of
        None \<Rightarrow> Inl (LibraryError ''file does not exist'')
      | Some b \<Rightarrow>
          if take 4 b = ''glTF'' then Inr b
          else Inl (LibraryError ''incorrect header on GLB file''))"

definition copy_export :: "bytes \<Rightarrow> path \<Rightarrow> filesystem \<Rightarrow> exn option \<times> filesystem" where
  "copy_export scene p fs =
     (if endswith p ''.glb'' then (None, fs(p \<mapsto> scene))
      else (Some (LibraryError ''unsupported export format''), fs))"

definition copy_library :: "bytes trimesh" where
  "copy_library = \<lparr>trimesh_load = copy_load, scene_export = copy_export\<rparr>"

definition disk :: filesystem where
  "disk = [''/m/ship.glb'' \<mapsto> ''glTF-ship-mesh'', ''/m/cube.glb'' \<mapsto> ''glTF-cube'',
          ''/m/bad.glb'' \<mapsto> ''XXXX-cube'']"

definition loaded :: "path \<Rightarrow> app" where
  "loaded p = load_glb_file p (init_app disk)"


section \<open>Properties\<close>

subsection \<open>The four outcomes of a compression run\<close>

lemmas handler_defs =
  try_block_def except_block_def finally_block_def perform_compression_def
  update_progress_def set_status_message_def

lemma perform_compression_no_filepath:
  "filepath w = None \<Longrightarrow>
   perform_compression lib out w =
     (None,
      w\<lparr>progress_bar := 10,
        log_area := log_area w @
          [''Loading GLB file...'',
           ''Compression failed: '' @ str (no_attribute ''GLBCompressorApp'' ''filepath'')],
        compress_button := True,
        journal := journal w @
          [UpdateProgress 10 ''Loading GLB file...'',
           SetStatusMessage
             (''Compression failed: '' @ str (no_attribute ''GLBCompressorApp'' ''filepath'')),
           SetEnabled True]\<rparr>)"
  by (simp add: handler_defs)

lemma perform_compression_load_raises:
  "filepath w = Some p \<Longrightarrow> trimesh_load lib (files w) p = Inl e \<Longrightarrow>
   perform_compression lib out w =
     (None,
      w\<lparr>progress_bar := 10,
        log_area := log_area w @ [''Loading GLB file...'', ''Compression failed: '' @ str e],
        compress_button := True,
        journal := journal w @
          [UpdateProgress 10 ''Loading GLB file...'', TrimeshLoad p,
           SetStatusMessage (''Compression failed: '' @ str e), SetEnabled True]\<rparr>)"
  by (simp add: handler_defs)

lemma perform_compression_export_raises:
  "filepath w = Some p \<Longrightarrow> trimesh_load lib (files w) p = Inr scene \<Longrightarrow>
   scene_export lib scene out (files w) = (Some e, fs) \<Longrightarrow>
   perform_compression lib out w =
     (None,
      w\<lparr>progress_bar := 90,
        log_area := log_area w @
          [''Loading GLB file...'', ''Saving compressed file...'',
           ''Compression failed: '' @ str e],
        compress_button := True,
        files := fs,
        journal := journal w @
          [UpdateProgress 10 ''Loading GLB file...'', TrimeshLoad p,
           UpdateProgress 90 ''Saving compressed file...'', SceneExport out,
           SetStatusMessage (''Compression failed: '' @ str e), SetEnabled True]\<rparr>)"
  by (simp add: handler_defs)

lemma perform_compression_succeeds:
  "filepath w = Some p \<Longrightarrow> trimesh_load lib (files w) p = Inr scene \<Longrightarrow>
   scene_export lib scene out (files w) = (None, fs) \<Longrightarrow>
   perform_compression lib out w =
     (None,
      w\<lparr>progress_bar := 100,
        log_area := log_area w @
          [''Loading GLB file...'', ''Saving compressed file...'', ''Compression complete.'',
           ''Compressed file saved: '' @ out],
        compress_button := True,
        files := fs,
        journal := journal w @
          [UpdateProgress 10 ''Loading GLB file...'', TrimeshLoad p,
           UpdateProgress 90 ''Saving compressed file...'', SceneExport out,
           UpdateProgress 100 ''Compression complete.'',
           SetStatusMessage (''Compressed file saved: '' @ out), SetEnabled True]\<rparr>)"
  by (simp add: handler_defs)

text \<open>The four ways a run can go.\<close>

lemma run_cases:
  obtains
    (no_filepath) "filepath w = None"
  | (load_raises) p e where "filepath w = Some p" "trimesh_load lib (files w) p = Inl e"
  | (export_raises) p scene e fs where "filepath w = Some p"
      "trimesh_load lib (files w) p = Inr scene"
      "scene_export lib scene out (files w) = (Some e, fs)"
  | (succeeds) p scene fs where "filepath w = Some p"
      "trimesh_load lib (files w) p = Inr scene"
      "scene_export lib scene out (files w) = (None, fs)"
proof (cases "filepath w")
  case None
  then show ?thesis by (rule no_filepath)
next
  case (Some p)
  show ?thesis
  proof (cases "trimesh_load lib (files w) p")
    case (Inl e)
    with Some show ?thesis by (rule load_raises)
  next
    case (Inr scene)
    obtain r fs where ex: "scene_export lib scene out (files w) = (r, fs)"
      by (cases "scene_export lib scene out (files w)")
    show ?thesis
    proof (cases r)
      case None
      with Some Inr ex show ?thesis by (auto intro: succeeds)
    next
      case (Some e)
      with \<open>filepath w = Some p\<close> Inr ex show ?thesis by (auto intro: export_raises)
    qed
  qed
qed

lemma perform_compression_reads:
  assumes "filepath w1 = filepath w2" and "files w1 = files w2"
  shows "fst (perform_compression lib out w1) = fst (perform_compression lib out w2)"
    and "files (snd (perform_compression lib out w1)) = files (snd (perform_compression lib out w2))"
    and "emitted lib out w1 = emitted lib out w2"
proof -
  show "fst (perform_compression lib out w1) = fst (perform_compression lib out w2)"
    by (cases rule: run_cases [where w = w1 and lib = lib and out = out])
      (use assms in \<open>simp_all add: perform_compression_no_filepath
        perform_compression_load_raises perform_compression_export_raises
        perform_compression_succeeds\<close>)
  show "files (snd (perform_compression lib out w1)) = files (snd (perform_compression lib out w2))"
    by (cases rule: run_cases [where w = w1 and lib = lib and out = out])
      (use assms in \<open>simp_all add: perform_compression_no_filepath
        perform_compression_load_raises perform_compression_export_raises
        perform_compression_succeeds\<close>)
  show "emitted lib out w1 = emitted lib out w2"
    by (cases rule: run_cases [where w = w1 and lib = lib and out = out])
      (use assms in \<open>simp_all add: emitted_def perform_compression_no_filepath
        perform_compression_load_raises perform_compression_export_raises
        perform_compression_succeeds\<close>)
qed

lemma slider_moved_keeps:
  "filepath (slider_moved v w) = filepath w" "files (slider_moved v w) = files w"
  by (simp_all add: slider_moved_def update_slider_label_def Let_def)

lemma perform_compression_keeps:
  "compression_slider (snd (perform_compression lib out w)) = compression_slider w"
  "filepath (snd (perform_compression lib out w)) = filepath w"
  "drop_parent (snd (perform_compression lib out w)) = drop_parent w"
  by (cases rule: run_cases [where w = w and lib = lib and out = out];
      simp add: perform_compression_no_filepath perform_compression_load_raises
        perform_compression_export_raises perform_compression_succeeds)+

lemma loads_append: "loads (xs @ ys) = loads xs @ loads ys"
  by (induction xs rule: loads.induct) simp_all

lemma perform_compression_loads:
  "loads (journal (snd (perform_compression lib out w))) = loads (journal w)"
  by (cases rule: run_cases [where w = w and lib = lib and out = out];
      simp add: loads_append perform_compression_no_filepath perform_compression_load_raises
        perform_compression_export_raises perform_compression_succeeds)

lemma run_invariant:
  assumes "P w" and "\<And>e v. P v \<Longrightarrow> P (fire lib e v)"
  shows "P (run lib evs w)"
  using assms(1)
proof (induction evs arbitrary: w)
  case Nil
  then show ?case by simp
next
  case (Cons e evs)
  from Cons.prems have "P (fire lib e w)" by (rule assms(2))
  then show ?case by (simp add: Cons.IH)
qed

subsection \<open>Exceptions never leave the compression run\<close>

text \<open>
  Claim C10. \<^verbatim>\<open>perform_compression\<close> hands no exception to its caller. When the
  loader or the exporter raises \<open>e\<close>, the last line of the log is
  \<^verbatim>\<open>Compression failed: \<close> followed by \<open>str e\<close>. On every path the last call
  of the run is \<^verbatim>\<open>setEnabled(True)\<close> on the compress button, which is enabled when
  the method returns.
\<close>

theorem perform_compression_never_raises:
  "fst (perform_compression lib out w) = None \<and>
   compress_button (snd (perform_compression lib out w)) \<and>
   last (journal (snd (perform_compression lib out w))) = SetEnabled True \<and>
   (\<forall>p e. filepath w = Some p \<longrightarrow> trimesh_load lib (files w) p = Inl e \<longrightarrow>
      last (log_area (snd (perform_compression lib out w))) = ''Compression failed: '' @ str e) \<and>
   (\<forall>p scene e fs. filepath w = Some p \<longrightarrow> trimesh_load lib (files w) p = Inr scene \<longrightarrow>
      scene_export lib scene out (files w) = (Some e, fs) \<longrightarrow>
      last (log_area (snd (perform_compression lib out w))) = ''Compression failed: '' @ str e)"
  by (cases rule: run_cases [where w = w and lib = lib and out = out];
      simp add: perform_compression_no_filepath perform_compression_load_raises
        perform_compression_export_raises perform_compression_succeeds)

lemmas concrete_defs =
  loaded_def init_app_def disk_def load_glb_file_def copy_library_def copy_load_def
  copy_export_def endswith_def compressed_output_def output_size_def emitted_def
  handler_defs slider_moved_def update_slider_label_def setValue_def setRange_def
  QSlider_def bound_def Let_def

theorem perform_compression_never_raises_witness:
  "filepath (loaded ''/m/bad.glb'') = Some ''/m/bad.glb'' \<and>
   trimesh_load copy_library (files (loaded ''/m/bad.glb'')) ''/m/bad.glb'' =
     Inl (LibraryError ''incorrect header on GLB file'') \<and>
   fst (perform_compression copy_library ''/out.glb'' (loaded ''/m/bad.glb'')) = None \<and>
   last (log_area (snd (perform_compression copy_library ''/out.glb'' (loaded ''/m/bad.glb'')))) =
     ''Compression failed: incorrect header on GLB file'' \<and>
   filepath (loaded ''/m/cube.glb'') = Some ''/m/cube.glb'' \<and>
   trimesh_load copy_library (files (loaded ''/m/cube.glb'')) ''/m/cube.glb'' = Inr ''glTF-cube'' \<and>
   scene_export copy_library ''glTF-cube'' ''/out.obj'' (files (loaded ''/m/cube.glb'')) =
     (Some (LibraryError ''unsupported export format''), disk) \<and>
   last (log_area (snd (perform_compression copy_library ''/out.obj'' (loaded ''/m/cube.glb'')))) =
     ''Compression failed: unsupported export format''"
  using perform_compression_never_raises [of copy_library "''/out.glb''" "loaded ''/m/bad.glb''"]
    perform_compression_never_raises [of copy_library "''/out.obj''" "loaded ''/m/cube.glb''"]
  by (simp add: concrete_defs)

subsection \<open>Progress events\<close>



subsection \<open>A failed load writes nothing\<close>

text \<open>
  Claim C3. When the loader raises on the stored file (as it does on a container with a
  wrong magic), the run ends with the report \<^verbatim>\<open>Compression failed: ...\<close>, the file
  system is what it was, and the exporter is not called: the run makes four calls, none
  of them the export, and is the same run whatever the exporter would do.
\<close>

theorem failed_load_writes_nothing:
  "filepath w = Some p \<Longrightarrow> trimesh_load lib (files w) p = Inl e \<Longrightarrow>
   files (snd (perform_compression lib out w)) = files w \<and>
   emitted lib out w =
     [UpdateProgress 10 ''Loading GLB file...'', TrimeshLoad p,
      SetStatusMessage (''Compression failed: '' @ str e), SetEnabled True] \<and>
   SceneExport out \<notin> set (emitted lib out w) \<and>
   last (log_area (snd (perform_compression lib out w))) = ''Compression failed: '' @ str e \<and>
   perform_compression (lib\<lparr>scene_export := exporter\<rparr>) out w = perform_compression lib out w"
  by (simp add: emitted_def perform_compression_load_raises)

theorem failed_load_writes_nothing_witness:
  "filepath (loaded ''/m/bad.glb'') = Some ''/m/bad.glb'' \<and>
   trimesh_load copy_library (files (loaded ''/m/bad.glb'')) ''/m/bad.glb'' =
     Inl (LibraryError ''incorrect header on GLB file'') \<and>
   files (snd (perform_compression copy_library ''/out.glb'' (loaded ''/m/bad.glb''))) = disk \<and>
   compressed_output copy_library ''/out.glb'' (loaded ''/m/bad.glb'') = None \<and>
   emitted copy_library ''/out.glb'' (loaded ''/m/bad.glb'') =
     [UpdateProgress 10 ''Loading GLB file...'', TrimeshLoad ''/m/bad.glb'',
      SetStatusMessage ''Compression failed: incorrect header on GLB file'', SetEnabled True]"
proof -
  have fp: "filepath (loaded ''/m/bad.glb'') = Some ''/m/bad.glb''"
    by (simp add: loaded_def load_glb_file_def set_status_message_def)
  have fs: "files (loaded ''/m/bad.glb'') = disk"
    by (simp add: loaded_def load_glb_file_def set_status_message_def init_app_def)
  have ld: "trimesh_load copy_library (files (loaded ''/m/bad.glb'')) ''/m/bad.glb'' =
      Inl (LibraryError ''incorrect header on GLB file'')"
    by (simp add: fs copy_library_def copy_load_def disk_def)
  from failed_load_writes_nothing [OF fp ld, of "''/out.glb''"] fp ld fs
  show ?thesis by (simp add: compressed_output_def disk_def)
qed

subsection \<open>The slider and the output\<close>

text \<open>
  Claim C2. For every input and all levels \<open>l1 \<le> l2\<close> between 10 and 100, the output
  of a run at level \<open>l2\<close> is no larger in bytes than the output of the run at level
  \<open>l1\<close>. A run at level \<open>l\<close> is a run started after the slider has been moved to \<open>l\<close>.
\<close>

theorem output_size_monotone_in_level:
  "10 \<le> l1 \<Longrightarrow> l1 \<le> l2 \<Longrightarrow> l2 \<le> 100 \<Longrightarrow>
   output_size lib out (slider_moved l2 w) \<le> output_size lib out (slider_moved l1 w)"
  using perform_compression_reads(2) [of "slider_moved l2 w" "slider_moved l1 w" lib out]
  by (simp add: output_size_def compressed_output_def slider_moved_keeps)

theorem output_size_monotone_in_level_witness:
  "(10::int) \<le> 10 \<and> (10::int) \<le> 100 \<and> (100::int) \<le> 100 \<and>
   output_size copy_library ''/out.glb'' (slider_moved 100 (loaded ''/m/ship.glb'')) \<le>
     output_size copy_library ''/out.glb'' (slider_moved 10 (loaded ''/m/ship.glb'')) \<and>
   output_size copy_library ''/out.glb'' (slider_moved 10 (loaded ''/m/ship.glb'')) = 14"
  using output_size_monotone_in_level
    [of 10 100 copy_library "''/out.glb''" "loaded ''/m/ship.glb''"]
  by (simp add: concrete_defs)

text \<open>
  Claim C1, as stated, fails: with the slider at 100 and at 10 the same fourteen bytes are
  written, so the output at level 100 is not strictly smaller.
\<close>

theorem level_100_not_smaller_than_level_10:
  "slider_value (compression_slider (slider_moved 100 (loaded ''/m/ship.glb''))) = 100 \<and>
   slider_value (compression_slider (slider_moved 10 (loaded ''/m/ship.glb''))) = 10 \<and>
   output_size copy_library ''/out.glb'' (slider_moved 100 (loaded ''/m/ship.glb'')) = 14 \<and>
   output_size copy_library ''/out.glb'' (slider_moved 10 (loaded ''/m/ship.glb'')) = 14 \<and>
   \<not> output_size copy_library ''/out.glb'' (slider_moved 100 (loaded ''/m/ship.glb'')) <
       output_size copy_library ''/out.glb'' (slider_moved 10 (loaded ''/m/ship.glb''))"
  by (simp add: concrete_defs)

text \<open>
  Claim C1, amended. For every input, every library behaviour and every output path, the
  run at level 100 leaves at the output path exactly what the run at level 10 leaves
  there, so both outputs have the same size: a run does not read the slider.
\<close>

theorem output_same_at_level_100_and_10:
  "compressed_output lib out (slider_moved 100 w) = compressed_output lib out (slider_moved 10 w) \<and>
   output_size lib out (slider_moved 100 w) = output_size lib out (slider_moved 10 w)"
  using perform_compression_reads(2) [of "slider_moved 100 w" "slider_moved 10 w" lib out]
  by (simp add: output_size_def compressed_output_def slider_moved_keeps)

subsection \<open>What a run depends on\<close>

text \<open>
  Claim C4, as stated, fails: two runs with the same argument (the output path), the same
  slider and the same file system write different outputs, because the stored file path
  differs; the input of a run is read from that attribute when the run executes.
\<close>

theorem stored_filepath_decides_output:
  "files (loaded ''/m/ship.glb'') = files (loaded ''/m/cube.glb'') \<and>
   compression_slider (loaded ''/m/ship.glb'') = compression_slider (loaded ''/m/cube.glb'') \<and>
   compressed_output copy_library ''/out.glb'' (loaded ''/m/ship.glb'') = Some ''glTF-ship-mesh'' \<and>
   compressed_output copy_library ''/out.glb'' (loaded ''/m/cube.glb'') = Some ''glTF-cube'' \<and>
   compressed_output copy_library ''/out.glb'' (loaded ''/m/ship.glb'') \<noteq>
     compressed_output copy_library ''/out.glb'' (loaded ''/m/cube.glb'')"
  by (simp add: concrete_defs)

text \<open>
  Claim C4, amended. Two runs with the same output path that start with the same stored
  file path and the same file system end with the same file system, hence the same
  output, make the same calls and raise nothing, whatever the slider and the other
  widgets hold. The stored file path is the one piece of the window's state a run reads.
\<close>

theorem output_determined_by_filepath_and_files:
  "filepath w1 = filepath w2 \<Longrightarrow> files w1 = files w2 \<Longrightarrow>
   compressed_output lib out w1 = compressed_output lib out w2 \<and>
   files (snd (perform_compression lib out w1)) = files (snd (perform_compression lib out w2)) \<and>
   fst (perform_compression lib out w1) = fst (perform_compression lib out w2) \<and>
   emitted lib out w1 = emitted lib out w2"
  using perform_compression_reads [of w1 w2 lib out]
  by (simp add: compressed_output_def)

theorem output_determined_by_filepath_and_files_witness:
  "filepath (slider_moved 100 (loaded ''/m/cube.glb'')) =
     filepath (show_about_dialog (loaded ''/m/cube.glb'')) \<and>
   files (slider_moved 100 (loaded ''/m/cube.glb'')) =
     files (show_about_dialog (loaded ''/m/cube.glb'')) \<and>
   compression_slider (slider_moved 100 (loaded ''/m/cube.glb'')) \<noteq>
     compression_slider (show_about_dialog (loaded ''/m/cube.glb'')) \<and>
   compressed_output copy_library ''/out.glb'' (slider_moved 100 (loaded ''/m/cube.glb'')) =
     compressed_output copy_library ''/out.glb'' (show_about_dialog (loaded ''/m/cube.glb'')) \<and>
   compressed_output copy_library ''/out.glb'' (show_about_dialog (loaded ''/m/cube.glb'')) =
     Some ''glTF-cube''"
  using output_determined_by_filepath_and_files
    [of "slider_moved 100 (loaded ''/m/cube.glb'')" "show_about_dialog (loaded ''/m/cube.glb'')"
      copy_library "''/out.glb''"]
  by (simp add: concrete_defs show_about_dialog_def)

subsection \<open>The slider stays between 10 and 100\<close>

lemma fire_slider:
  assumes "minimum (compression_slider w) = 10 \<and> maximum (compression_slider w) = 100 \<and>
    10 \<le> slider_value (compression_slider w) \<and> slider_value (compression_slider w) \<le> 100"
  shows "minimum (compression_slider (fire lib e w)) = 10 \<and>
    maximum (compression_slider (fire lib e w)) = 100 \<and>
    10 \<le> slider_value (compression_slider (fire lib e w)) \<and>
    slider_value (compression_slider (fire lib e w)) \<le> 100"
proof (cases e)
  case (OpenFileDialogEv p)
  with assms show ?thesis
    by (simp add: open_file_dialog_def load_glb_file_def set_status_message_def)
next
  case (LoadGlbFileEv p)
  with assms show ?thesis by (simp add: load_glb_file_def set_status_message_def)
next
  case (DropEv urls)
  with assms show ?thesis
    by (simp add: dropEvent_def load_glb_file_def set_status_message_def Let_def
        split: list.splits option.splits parent_widget.splits)
next
  case (SliderMovedEv v)
  with assms show ?thesis
    by (simp add: slider_moved_def update_slider_label_def setValue_def bound_def Let_def)
next
  case (CompressFileEv out)
  with assms show ?thesis
    by (simp add: compress_file_def set_status_message_def split: option.splits)
next
  case (PerformCompressionEv out)
  with assms show ?thesis by (simp add: perform_compression_keeps)
next
  case ShowAboutDialogEv
  with assms show ?thesis by (simp add: show_about_dialog_def)
qed

lemma run_slider:
  "minimum (compression_slider (run lib evs (init_app fs))) = 10 \<and>
   maximum (compression_slider (run lib evs (init_app fs))) = 100 \<and>
   10 \<le> slider_value (compression_slider (run lib evs (init_app fs))) \<and>
   slider_value (compression_slider (run lib evs (init_app fs))) \<le> 100"
proof (rule run_invariant)
  show "minimum (compression_slider (init_app fs)) = 10 \<and>
    maximum (compression_slider (init_app fs)) = 100 \<and>
    10 \<le> slider_value (compression_slider (init_app fs)) \<and>
    slider_value (compression_slider (init_app fs)) \<le> 100"
    by (simp add: init_app_def setValue_def setRange_def QSlider_def bound_def)
qed (rule fire_slider)

text \<open>
  Claim C6. The slider starts at 50. After any sequence of handler calls its value is an
  integer between 10 and 100, and asking for a value \<open>v\<close> selects \<open>v\<close> clamped to that
  range: a value outside is neither stored nor refused.
\<close>

theorem slider_level_in_range:
  "slider_value (compression_slider (init_app fs)) = 50 \<and>
   10 \<le> slider_value (compression_slider (run lib evs (init_app fs))) \<and>
   slider_value (compression_slider (run lib evs (init_app fs))) \<le> 100 \<and>
   slider_value (compression_slider (slider_moved v (run lib evs (init_app fs)))) =
     max 10 (min 100 v)"
proof -
  have start: "slider_value (compression_slider (init_app fs)) = 50"
    by (simp add: init_app_def setValue_def setRange_def QSlider_def bound_def)
  have moved: "slider_value (compression_slider (slider_moved v (run lib evs (init_app fs)))) =
      max 10 (min 100 v)"
    using run_slider [of lib evs fs]
    by (auto simp add: slider_moved_def update_slider_label_def setValue_def bound_def Let_def)
  from start moved run_slider [of lib evs fs] show ?thesis by simp
qed

subsection \<open>Compressing before a file is loaded\<close>

lemma fire_filepath:
  assumes "filepath w =
    (if loads (journal w) = [] then None else Some (last (loads (journal w))))"
  shows "filepath (fire lib e w) =
    (if loads (journal (fire lib e w)) = [] then None
     else Some (last (loads (journal (fire lib e w)))))"
proof (cases e)
  case (OpenFileDialogEv p)
  with assms show ?thesis
    by (simp add: open_file_dialog_def load_glb_file_def set_status_message_def loads_append)
next
  case (LoadGlbFileEv p)
  with assms show ?thesis
    by (simp add: load_glb_file_def set_status_message_def loads_append)
next
  case (DropEv urls)
  with assms show ?thesis
    by (simp add: dropEvent_def load_glb_file_def set_status_message_def loads_append Let_def
        split: list.splits option.splits parent_widget.splits)
next
  case (SliderMovedEv v)
  with assms show ?thesis
    by (simp add: slider_moved_def update_slider_label_def Let_def)
next
  case (CompressFileEv out)
  with assms show ?thesis
    by (simp add: compress_file_def set_status_message_def loads_append split: option.splits)
next
  case (PerformCompressionEv out)
  with assms show ?thesis
    by (simp add: perform_compression_keeps perform_compression_loads)
next
  case ShowAboutDialogEv
  with assms show ?thesis by (simp add: show_about_dialog_def)
qed

lemma run_filepath:
  "filepath (run lib evs (init_app fs)) =
     (if loads (journal (run lib evs (init_app fs))) = [] then None
      else Some (last (loads (journal (run lib evs (init_app fs))))))"
proof (rule run_invariant)
  show "filepath (init_app fs) =
    (if loads (journal (init_app fs)) = [] then None
     else Some (last (loads (journal (init_app fs)))))"
    by (simp add: init_app_def)
qed (rule fire_filepath)

lemma set_status_message_changes: "set_status_message m w \<noteq> w" "w \<noteq> set_status_message m w"
proof -
  have "journal (set_status_message m w) \<noteq> journal w"
    by (simp add: set_status_message_def)
  then show "set_status_message m w \<noteq> w" "w \<noteq> set_status_message m w"
    by auto
qed

text \<open>
  Claim C8. The constructor leaves the attribute \<^verbatim>\<open>filepath\<close> unassigned, so
  \<^verbatim>\<open>compress_file\<close> on the new window raises AttributeError; so it does after any
  sequence of handler calls in which \<^verbatim>\<open>load_glb_file\<close> has not run. When
  \<^verbatim>\<open>compress_file\<close> takes the branch that reports
  \<^verbatim>\<open>No GLB file loaded to compress.\<close>, then \<^verbatim>\<open>load_glb_file\<close> has run with the
  empty path.
\<close>

theorem no_file_branch_only_after_falsy_load:
  "compress_file out (init_app fs) = Inl (no_attribute ''GLBCompressorApp'' ''filepath'') \<and>
   (loads (journal (run lib evs (init_app fs))) = [] \<longrightarrow>
      compress_file out (run lib evs (init_app fs)) =
        Inl (no_attribute ''GLBCompressorApp'' ''filepath'')) \<and>
   (compress_file out (run lib evs (init_app fs)) =
      Inr (set_status_message ''No GLB file loaded to compress.'' (run lib evs (init_app fs)),
           None) \<longrightarrow>
      [] \<in> set (loads (journal (run lib evs (init_app fs)))))"
proof -
  let ?w = "run lib evs (init_app fs)"
  have a: "compress_file out (init_app fs) = Inl (no_attribute ''GLBCompressorApp'' ''filepath'')"
    by (simp add: compress_file_def init_app_def)
  have b: "compress_file out ?w = Inl (no_attribute ''GLBCompressorApp'' ''filepath'')"
    if "loads (journal ?w) = []"
    using that run_filepath [of lib evs fs] by (simp add: compress_file_def)
  have c: "[] \<in> set (loads (journal ?w))"
    if "compress_file out ?w =
        Inr (set_status_message ''No GLB file loaded to compress.'' ?w, None)"
  proof -
    from that have "filepath ?w = Some []"
      by (auto simp add: compress_file_def set_status_message_changes
          split: option.splits if_splits)
    with run_filepath [of lib evs fs]
    have "loads (journal ?w) \<noteq> []" and "last (loads (journal ?w)) = []"
      by (auto split: if_splits)
    then show ?thesis by (metis last_in_set)
  qed
  from a b c show ?thesis by blast
qed

theorem no_file_branch_only_after_falsy_load_witness:
  "loads (journal (run copy_library [] (init_app disk))) = [] \<and>
   compress_file ''/out.glb'' (run copy_library [] (init_app disk)) =
     Inl (no_attribute ''GLBCompressorApp'' ''filepath'') \<and>
   compress_file ''/out.glb'' (run copy_library [LoadGlbFileEv []] (init_app disk)) =
     Inr (set_status_message ''No GLB file loaded to compress.''
            (run copy_library [LoadGlbFileEv []] (init_app disk)), None) \<and>
   [] \<in> set (loads (journal (run copy_library [LoadGlbFileEv []] (init_app disk))))"
  using no_file_branch_only_after_falsy_load [of "''/out.glb''" disk copy_library "[]"]
    no_file_branch_only_after_falsy_load [of "''/out.glb''" disk copy_library "[LoadGlbFileEv []]"]
  by (simp add: compress_file_def load_glb_file_def set_status_message_def init_app_def)

subsection \<open>Dropping a file\<close>

lemma fire_parent: "drop_parent (fire lib e w) = drop_parent w"
proof (cases e)
  case (OpenFileDialogEv p)
  then show ?thesis
    by (simp add: open_file_dialog_def load_glb_file_def set_status_message_def)
next
  case (LoadGlbFileEv p)
  then show ?thesis by (simp add: load_glb_file_def set_status_message_def)
next
  case (DropEv urls)
  then show ?thesis
    by (simp add: dropEvent_def load_glb_file_def set_status_message_def Let_def
        split: list.splits option.splits parent_widget.splits)
next
  case (SliderMovedEv v)
  then show ?thesis by (simp add: slider_moved_def update_slider_label_def Let_def)
next
  case (CompressFileEv out)
  then show ?thesis
    by (simp add: compress_file_def set_status_message_def split: option.splits)
next
  case (PerformCompressionEv out)
  then show ?thesis by (simp add: perform_compression_keeps)
next
  case ShowAboutDialogEv
  then show ?thesis by (simp add: show_about_dialog_def)
qed

lemma run_parent: "drop_parent (run lib evs (init_app fs)) = Some CentralWidget"
proof (rule run_invariant)
  show "drop_parent (init_app fs) = Some CentralWidget"
    by (simp add: init_app_def)
qed (simp add: fire_parent)

text \<open>
  Claim C9. The claim is what \<^verbatim>\<open>dropEvent\<close> sets out to do, and the window does
  half of it. In every state the window can reach, a drop whose first URL ends with
  \<^verbatim>\<open>.glb\<close> is the call of \<^verbatim>\<open>load_glb_file\<close> on that path, whatever the other
  URLs are. A drop whose first URL does not end with \<^verbatim>\<open>.glb\<close> leaves the stored file
  path alone but reports nothing: the parent the handler asks for the report is the central
  widget, the call of \<^verbatim>\<open>set_status_message\<close> on it raises AttributeError, and the
  window, its log included, stays as it was.
\<close>

theorem drop_of_other_file_raises_in_window:
  "(endswith (toLocalFile u) ''.glb'' \<longrightarrow>
      fire lib (DropEv (u # rest)) (run lib evs (init_app fs)) =
        load_glb_file (toLocalFile u) (run lib evs (init_app fs))) \<and>
   (\<not> endswith (toLocalFile u) ''.glb'' \<longrightarrow>
      dropEvent callback (drop_parent (run lib evs (init_app fs))) (u # rest)
          (run lib evs (init_app fs)) =
        Inl (no_attribute ''PySide6.QtWidgets.QWidget'' ''set_status_message'') \<and>
      fire lib (DropEv (u # rest)) (run lib evs (init_app fs)) = run lib evs (init_app fs) \<and>
      log_area (fire lib (DropEv (u # rest)) (run lib evs (init_app fs))) =
        log_area (run lib evs (init_app fs)) \<and>
      fire lib (DropEv (u # rest)) (run lib evs (init_app fs)) \<noteq>
        set_status_message ''Invalid file type. Only .glb files are supported.''
          (run lib evs (init_app fs)))"
  by (simp add: dropEvent_def run_parent set_status_message_changes Let_def)

theorem drop_of_other_file_raises_in_window_witness:
  "endswith (toLocalFile (LocalFile ''/m/cube.glb'')) ''.glb'' \<and>
   fire copy_library (DropEv [LocalFile ''/m/cube.glb'', LocalFile ''/m/notes.txt''])
       (run copy_library [LoadGlbFileEv ''/m/ship.glb''] (init_app disk)) =
     load_glb_file ''/m/cube.glb'' (run copy_library [LoadGlbFileEv ''/m/ship.glb''] (init_app disk)) \<and>
   \<not> endswith (toLocalFile (LocalFile ''/m/notes.txt'')) ''.glb'' \<and>
   fire copy_library (DropEv [LocalFile ''/m/notes.txt'', LocalFile ''/m/cube.glb''])
       (run copy_library [LoadGlbFileEv ''/m/ship.glb''] (init_app disk)) =
     run copy_library [LoadGlbFileEv ''/m/ship.glb''] (init_app disk) \<and>
   log_area (fire copy_library (DropEv [LocalFile ''/m/notes.txt'', LocalFile ''/m/cube.glb''])
       (run copy_library [LoadGlbFileEv ''/m/ship.glb''] (init_app disk))) =
     [''Loaded file: ship.glb'']"
proof -
  have glb: "endswith (toLocalFile (LocalFile ''/m/cube.glb'')) ''.glb''"
    by (simp add: endswith_def)
  have other: "\<not> endswith (toLocalFile (LocalFile ''/m/notes.txt'')) ''.glb''"
    by (simp add: endswith_def)
  have lg: "log_area (run copy_library [LoadGlbFileEv ''/m/ship.glb''] (init_app disk)) =
      [''Loaded file: ship.glb'']"
    by (simp add: load_glb_file_def set_status_message_def init_app_def basename_def)
  from glb other lg
    drop_of_other_file_raises_in_window [where u = "LocalFile ''/m/cube.glb''"
      and rest = "[LocalFile ''/m/notes.txt'']" and lib = copy_library
      and evs = "[LoadGlbFileEv ''/m/ship.glb'']" and fs = disk]
    drop_of_other_file_raises_in_window [where u = "LocalFile ''/m/notes.txt''"
      and rest = "[LocalFile ''/m/cube.glb'']" and lib = copy_library
      and evs = "[LoadGlbFileEv ''/m/ship.glb'']" and fs = disk]
  show ?thesis by simp
qed

end
